theory Spec2Isabelle
  imports Main "HOL-Library.Word"
begin

section \<open>The minilm-builder stage scripts\<close>

text \<open>
  The five scripts under \<open>packages/minilm-builder/python\<close> (download, convert, optimize,
  quantize, verify) are each one module body: imports behind a guard, positional
  arguments read from \<open>sys.argv\<close>, and a \<open>try\<close> block whose handler prints an error
  record and exits with status 1. The embedding keeps that shape. What the scripts do
  beyond computing values is explicit: the lines printed, the calls into the external
  libraries, the file system, and the exit status.
\<close>

subsection \<open>Records printed on standard output\<close>

type_synonym byte = "8 word"
type_synonym pyfloat = "64 word"

text \<open>
  A record is the dictionary handed to \<open>json.dumps\<close>, with its keys in insertion order.
  A Python float is kept as its 64 bits; no arithmetic is done on it here.
\<close>

datatype json = JStr string | JInt int | JFloat pyfloat | JArr "json list"

type_synonym record_line = "(string \<times> json) list"

subsection \<open>Exceptions\<close>

text \<open>
  An exception is an instance of \<open>Exception\<close>: its class name and the text \<open>str(e)\<close>
  gives. \<open>SystemExit\<close> and \<open>KeyboardInterrupt\<close>, which \<open>except Exception\<close> does not
  catch, are not modelled.
\<close>

datatype exn = Exc (exc_class: string) (exc_str: string)

subsection \<open>pathlib on POSIX\<close>

text \<open>
  \<open>Path(s)\<close> keeps a root (\<open>''''\<close>, \<open>''/''\<close> or \<open>''//''\<close>) and the list of components
  of \<open>s\<close>, dropping empty components and \<open>''.''\<close>. \<open>str\<close> joins them again, and gives
  \<open>''.''\<close> for the empty path.
\<close>

datatype ppath = PPath (root: string) (parts: "string list")

definition splitroot :: "string \<Rightarrow> string \<times> string" where
  "splitroot p =
     (if take 1 p \<noteq> ''/'' then ('''', p)
      else if take 1 (drop 1 p) \<noteq> ''/'' \<or> take 1 (drop 2 p) = ''/'' then (''/'', drop 1 p)
      else (take 2 p, drop 2 p))"

fun split_sep :: "string \<Rightarrow> string list" where
  "split_sep [] = [[]]"
| "split_sep (c # cs) =
     (if c = CHR ''/'' then [] # split_sep cs
      else (case split_sep cs of [] \<Rightarrow> [[c]] | x # xs \<Rightarrow> (c # x) # xs))"

fun join_sep :: "string list \<Rightarrow> string" where
  "join_sep [] = []"
| "join_sep [x] = x"
| "join_sep (x # y # ys) = x @ ''/'' @ join_sep (y # ys)"

definition Path :: "string \<Rightarrow> ppath" where
  "Path s = (case splitroot s of (r, rel) \<Rightarrow>
     PPath r (filter (\<lambda>x. x \<noteq> [] \<and> x \<noteq> ''.'') (split_sep rel)))"

definition str_path :: "ppath \<Rightarrow> string" where
  "str_path p = (let s = root p @ join_sep (parts p) in if s = [] then ''.'' else s)"

definition joinpath :: "ppath \<Rightarrow> string \<Rightarrow> ppath" where
  \<comment> \<open>\<open>p / name\<close>: an absolute right operand replaces the left one\<close>
  "joinpath p name = (let q = Path name in
     if root q \<noteq> [] then q else PPath (root p) (parts p @ parts q))"

definition parent :: "ppath \<Rightarrow> ppath" where
  "parent p = (if parts p = [] then p else PPath (root p) (butlast (parts p)))"

subsection \<open>The file system\<close>

text \<open>
  A file system maps a path to a regular file with its bytes or to a directory. The root
  and the empty relative path are always directories. A path is looked up as it is
  spelled, component by component, as pathlib compares paths. This is the file system
  itself for canonical paths (absolute, one leading slash, no \<open>..\<close>) on a file system
  without symbolic or hard links: there two spellings name one file exactly when they
  are equal. A doubled leading slash, \<open>..\<close>, a relative path beside an absolute one, and
  links give one file several spellings, which the model keeps apart; a statement that
  rests on two paths naming different files therefore asks for canonical paths.
\<close>

datatype node = File "byte list" | Dir

type_synonym fs = "ppath \<Rightarrow> node option"

definition lookup :: "fs \<Rightarrow> ppath \<Rightarrow> node option" where
  "lookup f p = (if parts p = [] then Some Dir else f p)"

definition path_exists :: "fs \<Rightarrow> ppath \<Rightarrow> bool" where
  "path_exists f p = (lookup f p \<noteq> None)"

definition os_error :: "string \<Rightarrow> string \<Rightarrow> ppath \<Rightarrow> exn" where
  "os_error cls txt p = Exc cls (txt @ '': '' @ [CHR 0x27] @ str_path p @ [CHR 0x27])"

text \<open>
  \<open>os.mkdir(p)\<close>. The kernel walks the path from the top: the first ancestor that is
  not a directory decides the error (missing: \<open>ENOENT\<close>; a regular file: \<open>ENOTDIR\<close>),
  and the error names \<open>p\<close> itself. With all ancestors in place, an existing \<open>p\<close> is
  \<open>EEXIST\<close>, and otherwise the directory is made. The message is the one Python prints
  for a path without quotes, backslashes or control characters.
\<close>

fun ancestors_from :: "string \<Rightarrow> string list \<Rightarrow> string list \<Rightarrow> ppath list" where
  "ancestors_from r pre [] = []"
| "ancestors_from r pre [c] = []"
| "ancestors_from r pre (c # d # cs) =
     PPath r (pre @ [c]) # ancestors_from r (pre @ [c]) (d # cs)"

definition ancestors :: "ppath \<Rightarrow> ppath list" where
  \<comment> \<open>the directories above \<open>p\<close> and below the root, from the top\<close>
  "ancestors p = ancestors_from (root p) [] (parts p)"

definition os_mkdir :: "ppath \<Rightarrow> fs \<Rightarrow> exn + fs" where
  "os_mkdir p f =
     (case find (\<lambda>a. lookup f a \<noteq> Some Dir) (ancestors p) of
        Some a \<Rightarrow>
          (case lookup f a of
             None \<Rightarrow>
               Inl (os_error ''FileNotFoundError'' ''[Errno 2] No such file or directory'' p)
           | Some _ \<Rightarrow>
               Inl (os_error ''NotADirectoryError'' ''[Errno 20] Not a directory'' p))
      | None \<Rightarrow>
          (case lookup f p of
             None \<Rightarrow> Inr (f(p \<mapsto> Dir))
           | Some _ \<Rightarrow> Inl (os_error ''FileExistsError'' ''[Errno 17] File exists'' p)))"

text \<open>
  \<open>p.mkdir(parents=True, exist_ok=True)\<close>, as pathlib has it:
  \<^verbatim>\<open>
  try:
      os.mkdir(self, mode)
  except FileNotFoundError:
      if not parents or self.parent == self:
          raise
      self.parent.mkdir(parents=True, exist_ok=True)
      self.mkdir(mode, parents=False, exist_ok=exist_ok)
  except OSError:
      if not exist_ok or not self.is_dir():
          raise
  \<close>
  \<open>mkdir_exist_ok\<close> is the call with \<open>parents=False\<close> on the last line of the first
  handler.
\<close>

definition mkdir_exist_ok :: "ppath \<Rightarrow> fs \<Rightarrow> exn option \<times> fs" where
  "mkdir_exist_ok p f =
     (case os_mkdir p f of
        Inr f' \<Rightarrow> (None, f')
      | Inl e \<Rightarrow>
          if exc_class e = ''FileNotFoundError'' then (Some e, f)
          else if lookup f p = Some Dir then (None, f)
          else (Some e, f))"

function mkdir_parents :: "ppath \<Rightarrow> fs \<Rightarrow> exn option \<times> fs" where
  "mkdir_parents p f =
     (case os_mkdir p f of
        Inr f' \<Rightarrow> (None, f')
      | Inl e \<Rightarrow>
          if exc_class e = ''FileNotFoundError'' then
            (if parent p = p then (Some e, f)
             else (case mkdir_parents (parent p) f of
                     (Some e', f') \<Rightarrow> (Some e', f')
                   | (None, f') \<Rightarrow> mkdir_exist_ok p f'))
          else if lookup f p = Some Dir then (None, f)
          else (Some e, f))"
  by pat_completeness auto
termination
proof (relation "measure (\<lambda>(p, f). length (parts p))")
  show "wf (measure (\<lambda>(p, f). length (parts p)))" by simp
next
  fix p :: ppath and f :: fs
  assume "parent p \<noteq> p"
  then have "parts p \<noteq> []" by (auto simp: parent_def split: if_splits)
  then show "((parent p, f), (p, f)) \<in> measure (\<lambda>(p, f). length (parts p))"
    by (simp add: parent_def)
qed

declare mkdir_parents.simps [simp del]

definition read_bytes :: "ppath \<Rightarrow> fs \<Rightarrow> exn + byte list" where
  "read_bytes p f =
     (case lookup f p of
        Some (File d) \<Rightarrow> Inr d
      | Some Dir \<Rightarrow> Inl (os_error ''IsADirectoryError'' ''[Errno 21] Is a directory'' p)
      | None \<Rightarrow> Inl (os_error ''FileNotFoundError'' ''[Errno 2] No such file or directory'' p))"

definition write_bytes :: "ppath \<Rightarrow> byte list \<Rightarrow> fs \<Rightarrow> exn + fs" where
  "write_bytes p d f =
     (case lookup f p of
        Some Dir \<Rightarrow> Inl (os_error ''IsADirectoryError'' ''[Errno 21] Is a directory'' p)
      | _ \<Rightarrow>
        (case lookup f (parent p) of
           Some Dir \<Rightarrow> Inr (f(p \<mapsto> File d))
         | Some (File _) \<Rightarrow>
             Inl (os_error ''NotADirectoryError'' ''[Errno 20] Not a directory'' p)
         | None \<Rightarrow>
             Inl (os_error ''FileNotFoundError'' ''[Errno 2] No such file or directory'' p)))"

subsection \<open>State of a run\<close>

text \<open>
  A run leaves a trace: each \<open>print(json.dumps(r))\<close> adds \<open>Print r\<close>, each call into an
  external library adds \<open>Call name\<close> when it starts, and a print that asks for it
  (\<open>flush=True\<close>) adds \<open>Flush\<close> after its line. The records on standard output are the
  \<open>Print\<close> entries, in order.
\<close>

datatype action = Print record_line | Call string | Flush

record state =
  st_trace :: "action list"
  st_files :: fs

type_synonym 'a comp = "state \<Rightarrow> (exn + 'a) \<times> state"

definition returnE :: "'a \<Rightarrow> 'a comp" where
  "returnE x s = (Inr x, s)"

definition raiseE :: "exn \<Rightarrow> 'a comp" where
  "raiseE e s = (Inl e, s)"

definition bindE :: "'a comp \<Rightarrow> ('a \<Rightarrow> 'b comp) \<Rightarrow> 'b comp" where
  "bindE m k s = (case m s of (Inl e, s') \<Rightarrow> (Inl e, s') | (Inr x, s') \<Rightarrow> k x s')"

definition thenE :: "'a comp \<Rightarrow> 'b comp \<Rightarrow> 'b comp" where
  "thenE m k = bindE m (\<lambda>_. k)"

definition py_print :: "record_line \<Rightarrow> bool \<Rightarrow> unit comp" where
  \<comment> \<open>\<open>print(json.dumps(r), flush=fl)\<close>\<close>
  "py_print r fl s =
     (Inr (), s\<lparr>st_trace := st_trace s @ (if fl then [Print r, Flush] else [Print r])\<rparr>)"

definition print_json :: "record_line \<Rightarrow> unit comp" where
  \<comment> \<open>\<open>print(json.dumps(r))\<close>: the scripts never pass \<open>flush\<close>, whose default is \<open>False\<close>\<close>
  "print_json r = py_print r False"

definition status :: "string \<Rightarrow> unit comp" where
  \<comment> \<open>\<open>print(json.dumps({"status": tag}))\<close>\<close>
  "status tag = print_json [(''status'', JStr tag)]"

text \<open>
  An external library function is a parameter of the run: given the file system it either
  raises an exception with some message or returns a value, and in both cases leaves the
  file system as it likes.
\<close>

type_synonym 'a extern = "fs \<Rightarrow> (string + 'a) \<times> fs"

definition lib_call :: "string \<Rightarrow> 'a extern \<Rightarrow> 'a comp" where
  "lib_call name g s =
     (case g (st_files s) of
        (Inl msg, f') \<Rightarrow>
          (Inl (Exc ''Exception'' msg), \<lparr>st_trace = st_trace s @ [Call name], st_files = f'\<rparr>)
      | (Inr x, f') \<Rightarrow>
          (Inr x, \<lparr>st_trace = st_trace s @ [Call name], st_files = f'\<rparr>))"

definition mkdir :: "ppath \<Rightarrow> unit comp" where
  "mkdir p s =
     (case mkdir_parents p (st_files s) of
        (Some e, f') \<Rightarrow> (Inl e, s\<lparr>st_files := f'\<rparr>)
      | (None, f') \<Rightarrow> (Inr (), s\<lparr>st_files := f'\<rparr>))"

text \<open>
  The loop both optimize.py and quantize.py end with:
  \<^verbatim>\<open>
  for file in [...]:
      src = src_dir / file
      if src.exists():
          dst = dst_dir / file
          dst.write_bytes(src.read_bytes())
  \<close>
\<close>

fun copy_files :: "ppath \<Rightarrow> ppath \<Rightarrow> string list \<Rightarrow> unit comp" where
  "copy_files src_dir dst_dir [] s = (Inr (), s)"
| "copy_files src_dir dst_dir (file # rest) s =
     (let src = joinpath src_dir file in
      if path_exists (st_files s) src then
        (let dst = joinpath dst_dir file in
         case read_bytes src (st_files s) of
           Inl e \<Rightarrow> (Inl e, s)
         | Inr d \<Rightarrow>
             (case write_bytes dst d (st_files s) of
                Inl e \<Rightarrow> (Inl e, s)
              | Inr f' \<Rightarrow> copy_files src_dir dst_dir rest (s\<lparr>st_files := f'\<rparr>)))
      else copy_files src_dir dst_dir rest s)"

subsection \<open>The world a stage runs in\<close>

type_synonym handle = nat

record fusion_options =
  fo_model_type :: string
  enable_gelu_approximation :: bool
  enable_skip_layer_norm :: bool

record world =
  argv :: "string list"
  files :: fs
  importable :: "string \<Rightarrow> bool"
  AutoModel_from_pretrained :: "string \<Rightarrow> handle extern"
  AutoTokenizer_from_pretrained :: "string \<Rightarrow> handle extern"
  model_save_pretrained :: "handle \<Rightarrow> ppath \<Rightarrow> unit extern"
  tokenizer_save_pretrained :: "handle \<Rightarrow> ppath \<Rightarrow> unit extern"
  main_export :: "string \<Rightarrow> ppath \<Rightarrow> string \<Rightarrow> int \<Rightarrow> string \<Rightarrow> unit extern"
  optimize_model :: "string \<Rightarrow> string \<Rightarrow> int \<Rightarrow> int \<Rightarrow> fusion_options \<Rightarrow> handle extern"
  save_model_to_file :: "handle \<Rightarrow> string \<Rightarrow> unit extern"
  quantize_dynamic :: "string \<Rightarrow> string \<Rightarrow> unit extern"
  InferenceSession :: "string \<Rightarrow> handle extern"
  tokenizer_call :: "handle \<Rightarrow> string \<Rightarrow> handle extern"
  session_run :: "handle \<Rightarrow> handle \<Rightarrow> handle extern"
  output_stats :: "handle \<Rightarrow> (int list \<times> pyfloat \<times> pyfloat) extern"

text \<open>
  \<open>argv\<close> is \<open>sys.argv\<close>, the script name first. \<open>importable w m\<close> says whether the
  import of module \<open>m\<close> succeeds; a failing import raises \<open>ImportError\<close>. The library
  entries are the calls the scripts delegate to; \<open>output_stats\<close> stands for lines 32 to
  34 of verify.py (\<open>outputs[0].shape\<close>, \<open>np.mean\<close>, \<open>np.std\<close>).
\<close>

definition argv_at :: "world \<Rightarrow> nat \<Rightarrow> string option" where
  \<comment> \<open>\<open>sys.argv[i]\<close>; \<open>None\<close> is the \<open>IndexError\<close>\<close>
  "argv_at w i = (if i < length (argv w) then Some (argv w ! i) else None)"

text \<open>
  \<open>int(s)\<close> on a string, for CPython 3.11 and later. A \<open>char\<close> stands for a code point
  below 256; the white space \<open>int\<close> strips there is tab, line feed, vertical tab, form
  feed, carriage return, space, U+0085 and U+00A0. Then come an optional sign and decimal
  digits with single underscores between them, at most 4300 digits in all. \<open>None\<close> is
  the \<open>ValueError\<close>.
\<close>

definition is_space :: "char \<Rightarrow> bool" where
  "is_space c =
     (c \<in> {CHR 0x09, CHR 0x0A, CHR 0x0B, CHR 0x0C, CHR 0x0D, CHR '' '', CHR 0x85, CHR 0xA0})"

definition digit_val :: "char \<Rightarrow> nat option" where
  "digit_val c =
     (let n = (of_char c :: nat) in if 48 \<le> n \<and> n \<le> 57 then Some (n - 48) else None)"

fun digits_from :: "nat \<Rightarrow> string \<Rightarrow> nat option" where
  "digits_from acc [] = Some acc"
| "digits_from acc (c # cs) =
     (if c = CHR ''_'' then
        (case cs of
           [] \<Rightarrow> None
         | d # ds \<Rightarrow> (case digit_val d of None \<Rightarrow> None
                     | Some v \<Rightarrow> digits_from (10 * acc + v) ds))
      else (case digit_val c of None \<Rightarrow> None | Some v \<Rightarrow> digits_from (10 * acc + v) cs))"

definition digits :: "string \<Rightarrow> nat option" where
  "digits s =
     (if 4300 < length (filter (\<lambda>c. c \<noteq> CHR ''_'') s) then None
      else (case s of [] \<Rightarrow> None
        | c # cs \<Rightarrow> (case digit_val c of None \<Rightarrow> None | Some v \<Rightarrow> digits_from v cs)))"

definition strip :: "string \<Rightarrow> string" where
  "strip s = rev (dropWhile is_space (rev (dropWhile is_space s)))"

definition py_int :: "string \<Rightarrow> int option" where
  "py_int s =
     (case strip s of
        [] \<Rightarrow> None
      | c # cs \<Rightarrow>
          if c = CHR ''-'' then map_option (\<lambda>n. - int n) (digits cs)
          else if c = CHR ''+'' then map_option int (digits cs)
          else map_option int (digits (c # cs)))"

subsection \<open>The stage bodies\<close>

text \<open>Each body is the \<open>try\<close> block of its script, statement by statement.\<close>

definition download_body :: "world \<Rightarrow> string \<Rightarrow> string \<Rightarrow> unit comp" where
  "download_body w model_name cache_dir =
     thenE (status ''downloading_model'')
    (bindE (lib_call ''AutoModel.from_pretrained'' (AutoModel_from_pretrained w model_name))
       (\<lambda>model.
     thenE (status ''downloading_tokenizer'')
    (bindE (lib_call ''AutoTokenizer.from_pretrained''
              (AutoTokenizer_from_pretrained w model_name))
       (\<lambda>tokenizer.
     let cache_path = Path cache_dir in
     thenE (mkdir cache_path)
    (thenE (status ''saving_model'')
    (thenE (lib_call ''model.save_pretrained'' (model_save_pretrained w model cache_path))
    (thenE (status ''saving_tokenizer'')
    (thenE (lib_call ''tokenizer.save_pretrained''
              (tokenizer_save_pretrained w tokenizer cache_path))
    (print_json [(''status'', JStr ''complete''),
                 (''cache_dir'', JStr (str_path cache_path))])))))))))"

definition convert_body :: "world \<Rightarrow> string \<Rightarrow> string \<Rightarrow> unit comp" where
  "convert_body w cache_dir output_dir =
     (let output_path = Path output_dir in
      thenE (mkdir output_path)
     (thenE (status ''exporting_to_onnx'')
     (thenE (lib_call ''main_export''
               (main_export w cache_dir output_path ''feature-extraction'' 18 ''cpu''))
     (print_json [(''status'', JStr ''complete''),
                  (''output_dir'', JStr (str_path output_path))]))))"

definition optimize_manifest :: "string list" where
  "optimize_manifest =
     [''config.json'', ''tokenizer.json'', ''tokenizer_config.json'',
      ''special_tokens_map.json'', ''vocab.txt'']"

definition optimize_prepare :: "world \<Rightarrow> string \<Rightarrow> string \<Rightarrow> int \<Rightarrow> int \<Rightarrow> unit comp" where
  \<comment> \<open>optimize.py, lines 20 to 38\<close>
  "optimize_prepare w model_path output_path num_heads hidden_size =
     thenE (status ''loading_model'')
    (thenE (status ''optimizing'')
    (let fusion_options =
           \<lparr>fo_model_type = ''bert'', enable_gelu_approximation = True,
            enable_skip_layer_norm = True\<rparr> in
     bindE (lib_call ''optimize_model''
              (optimize_model w model_path ''bert'' num_heads hidden_size fusion_options))
       (\<lambda>optimized_model.
     thenE (status ''saving'')
    (thenE (mkdir (parent (Path output_path)))
    (lib_call ''save_model_to_file''
        (save_model_to_file w optimized_model output_path))))))"

definition optimize_body :: "world \<Rightarrow> string \<Rightarrow> string \<Rightarrow> int \<Rightarrow> int \<Rightarrow> unit comp" where
  "optimize_body w model_path output_path num_heads hidden_size =
     thenE (optimize_prepare w model_path output_path num_heads hidden_size)
    (let model_input_dir = parent (Path model_path);
         output_dir = parent (Path output_path) in
     thenE (copy_files model_input_dir output_dir optimize_manifest)
    (print_json [(''status'', JStr ''complete''), (''output_path'', JStr output_path)]))"

definition quantize_manifest :: "string list" where
  "quantize_manifest =
     [''tokenizer.json'', ''tokenizer_config.json'', ''special_tokens_map.json'',
      ''vocab.txt'', ''config.json'']"

definition quantize_prepare :: "world \<Rightarrow> string \<Rightarrow> string \<Rightarrow> unit comp" where
  \<comment> \<open>quantize.py, lines 18 to 39\<close>
  "quantize_prepare w model_dir output_dir =
     thenE (status ''loading_model'')
    (let model_path = joinpath (Path model_dir) ''model.onnx'' in
     thenE (\<lambda>s. if \<not> path_exists (st_files s) model_path
                 then raiseE (Exc ''FileNotFoundError''
                                (''Model not found: '' @ str_path model_path)) s
                 else returnE () s)
    (let output_path = Path output_dir in
     thenE (mkdir output_path)
    (let quantized_model_path = joinpath output_path ''model_quantized.onnx'' in
     thenE (status ''quantizing'')
    (lib_call ''quantize_dynamic''
        (quantize_dynamic w (str_path model_path) (str_path quantized_model_path))))))"

definition quantize_body :: "world \<Rightarrow> string \<Rightarrow> string \<Rightarrow> unit comp" where
  "quantize_body w model_dir output_dir =
     thenE (quantize_prepare w model_dir output_dir)
    (let output_path = Path output_dir in
     thenE (copy_files (Path model_dir) output_path quantize_manifest)
    (print_json [(''status'', JStr ''complete''),
                 (''output_dir'', JStr (str_path output_path))]))"

definition verify_body :: "world \<Rightarrow> string \<Rightarrow> string \<Rightarrow> string \<Rightarrow> unit comp" where
  "verify_body w model_path tokenizer_path test_text =
     thenE (status ''loading_session'')
    (bindE (lib_call ''onnxruntime.InferenceSession'' (InferenceSession w model_path))
       (\<lambda>session.
     thenE (status ''loading_tokenizer'')
    (bindE (lib_call ''AutoTokenizer.from_pretrained''
              (AutoTokenizer_from_pretrained w tokenizer_path))
       (\<lambda>tokenizer.
     thenE (status ''tokenizing'')
    (bindE (lib_call ''tokenizer'' (tokenizer_call w tokenizer test_text))
       (\<lambda>inputs.
     thenE (status ''running_inference'')
    (bindE (lib_call ''session.run'' (session_run w session inputs))
       (\<lambda>outputs.
     bindE (lib_call ''numpy'' (output_stats w outputs))
       (\<lambda>(output_shape, output_mean, output_std).
     print_json [(''status'', JStr ''complete''),
                 (''test_text'', JStr test_text),
                 (''output_shape'', JArr (map JInt output_shape)),
                 (''output_mean'', JFloat output_mean),
                 (''output_std'', JFloat output_std)])))))))))"

subsection \<open>The scripts\<close>

text \<open>
  Before its \<open>try\<close> block a script imports its libraries and reads its arguments. An
  \<open>ImportError\<close> under the import guard prints one error record. Anything else that
  fails there is not caught: the interpreter prints a traceback on standard error,
  nothing on standard output, and exits with status 1.
\<close>

datatype stage = Download | Export | Optimize | Quantize | Verify

datatype entry = Uncaught | ImportFailed string | Entered "unit comp"

definition verify_test_text :: "world \<Rightarrow> string" where
  \<comment> \<open>\<open>sys.argv[3] if len(sys.argv) > 3 else "This is a test"\<close>\<close>
  "verify_test_text w = (if length (argv w) > 3 then argv w ! 3 else ''This is a test'')"

fun stage_entry :: "stage \<Rightarrow> world \<Rightarrow> entry" where
  "stage_entry Download w =
     (if \<not> importable w ''transformers'' then ImportFailed ''transformers not installed''
      else case argv_at w 1 of None \<Rightarrow> Uncaught | Some model_name \<Rightarrow>
           (case argv_at w 2 of None \<Rightarrow> Uncaught | Some cache_dir \<Rightarrow>
            Entered (download_body w model_name cache_dir)))"
| "stage_entry Export w =
     (if \<not> (importable w ''optimum.exporters.onnx'' \<and> importable w ''transformers'')
      then ImportFailed ''optimum[exporters] not installed''
      else case argv_at w 1 of None \<Rightarrow> Uncaught | Some cache_dir \<Rightarrow>
           (case argv_at w 2 of None \<Rightarrow> Uncaught | Some output_dir \<Rightarrow>
            Entered (convert_body w cache_dir output_dir)))"
| "stage_entry Optimize w =
     (if \<not> (importable w ''onnxruntime.transformers.optimizer''
             \<and> importable w ''onnxruntime.transformers.fusion_options'')
      then ImportFailed ''onnxruntime not installed''
      else case argv_at w 1 of None \<Rightarrow> Uncaught | Some model_path \<Rightarrow>
           (case argv_at w 2 of None \<Rightarrow> Uncaught | Some output_path \<Rightarrow>
           (case argv_at w 3 of None \<Rightarrow> Uncaught | Some a3 \<Rightarrow>
           (case py_int a3 of None \<Rightarrow> Uncaught | Some num_heads \<Rightarrow>
           (case argv_at w 4 of None \<Rightarrow> Uncaught | Some a4 \<Rightarrow>
           (case py_int a4 of None \<Rightarrow> Uncaught | Some hidden_size \<Rightarrow>
            Entered (optimize_body w model_path output_path num_heads hidden_size)))))))"
| "stage_entry Quantize w =
     (if \<not> (importable w ''onnxruntime.quantization'' \<and> importable w ''onnx'')
      then ImportFailed ''onnxruntime not installed''
      else case argv_at w 1 of None \<Rightarrow> Uncaught | Some model_dir \<Rightarrow>
           (case argv_at w 2 of None \<Rightarrow> Uncaught | Some output_dir \<Rightarrow>
            Entered (quantize_body w model_dir output_dir)))"
| "stage_entry Verify w =
     (if \<not> importable w ''numpy'' then Uncaught
      else if \<not> (importable w ''onnxruntime'' \<and> importable w ''transformers'')
      then ImportFailed ''onnxruntime or transformers not installed''
      else case argv_at w 1 of None \<Rightarrow> Uncaught | Some model_path \<Rightarrow>
           (case argv_at w 2 of None \<Rightarrow> Uncaught | Some tokenizer_path \<Rightarrow>
            Entered (verify_body w model_path tokenizer_path (verify_test_text w))))"

record result =
  trace :: "action list"
  exit_code :: nat
  final_files :: fs

definition initial :: "world \<Rightarrow> state" where
  "initial w = \<lparr>st_trace = [], st_files = files w\<rparr>"

definition error_record :: "string \<Rightarrow> record_line" where
  \<comment> \<open>\<open>{"error": msg}\<close>\<close>
  "error_record msg = [(''error'', JStr msg)]"

definition run_guarded :: "unit comp \<Rightarrow> state \<Rightarrow> result" where
  \<comment> \<open>\<open>try: body  except Exception as e: print(json.dumps({"error": str(e)})); sys.exit(1)\<close>\<close>
  "run_guarded body s0 =
     (case body s0 of
        (Inr _, s) \<Rightarrow> \<lparr>trace = st_trace s, exit_code = 0, final_files = st_files s\<rparr>
      | (Inl e, s) \<Rightarrow>
          \<lparr>trace = st_trace s @ [Print (error_record (exc_str e))], exit_code = 1,
           final_files = st_files s\<rparr>)"

definition run_stage :: "stage \<Rightarrow> world \<Rightarrow> result" where
  "run_stage st w =
     (case stage_entry st w of
        Uncaught \<Rightarrow> \<lparr>trace = [], exit_code = 1, final_files = files w\<rparr>
      | ImportFailed msg \<Rightarrow>
          \<lparr>trace = [Print (error_record msg)], exit_code = 1, final_files = files w\<rparr>
      | Entered body \<Rightarrow> run_guarded body (initial w))"

fun records_of :: "action list \<Rightarrow> record_line list" where
  "records_of [] = []"
| "records_of (Print r # t) = r # records_of t"
| "records_of (Call _ # t) = records_of t"
| "records_of (Flush # t) = records_of t"

definition records :: "result \<Rightarrow> record_line list" where
  "records r = records_of (trace r)"

definition is_error :: "record_line \<Rightarrow> bool" where
  "is_error r = (map_of r ''error'' \<noteq> None)"

definition is_success :: "record_line \<Rightarrow> bool" where
  "is_success r = (map_of r ''status'' = Some (JStr ''complete''))"

definition is_terminal :: "record_line \<Rightarrow> bool" where
  "is_terminal r = (is_success r \<or> is_error r)"

subsection \<open>Reading the arguments\<close>

text \<open>
  \<open>reads_ok\<close> holds when the statements between the import guard and the \<open>try\<close> block
  cannot fail: the positional arguments are there, optimize.py's two numbers parse, and
  verify.py's unguarded \<open>import numpy\<close> succeeds.
\<close>

definition reads_ok :: "stage \<Rightarrow> world \<Rightarrow> bool" where
  "reads_ok st w =
     (case st of
        Optimize \<Rightarrow> 5 \<le> length (argv w) \<and> py_int (argv w ! 3) \<noteq> None
                    \<and> py_int (argv w ! 4) \<noteq> None
      | Verify \<Rightarrow> 3 \<le> length (argv w) \<and> importable w ''numpy''
      | _ \<Rightarrow> 3 \<le> length (argv w))"

text \<open>
  A body closes well when, started with nothing printed, it either raises having printed
  no terminal record, or returns having printed the success record last and no terminal
  record before it.
\<close>

definition closes_well :: "unit comp \<Rightarrow> bool" where
  "closes_well b = (\<forall>s r s'. b s = (r, s') \<longrightarrow> st_trace s = [] \<longrightarrow>
     (case r of
        Inl e \<Rightarrow> \<forall>x \<in> set (records_of (st_trace s')). \<not> is_terminal x
      | Inr _ \<Rightarrow> records_of (st_trace s') \<noteq> [] \<and> is_success (last (records_of (st_trace s')))
                 \<and> \<not> is_error (last (records_of (st_trace s')))
                 \<and> (\<forall>x \<in> set (butlast (records_of (st_trace s'))). \<not> is_terminal x)))"

subsection \<open>Concrete worlds\<close>

text \<open>
  \<open>quiet_world\<close>: every import succeeds and every library call returns without touching
  the file system.
\<close>

definition quiet_world :: "string list \<Rightarrow> fs \<Rightarrow> world" where
  "quiet_world args f =
     \<lparr>argv = args, files = f, importable = (\<lambda>_. True),
      AutoModel_from_pretrained = (\<lambda>_ g. (Inr 0, g)),
      AutoTokenizer_from_pretrained = (\<lambda>_ g. (Inr 1, g)),
      model_save_pretrained = (\<lambda>_ _ g. (Inr (), g)),
      tokenizer_save_pretrained = (\<lambda>_ _ g. (Inr (), g)),
      main_export = (\<lambda>_ _ _ _ _ g. (Inr (), g)),
      optimize_model = (\<lambda>_ _ _ _ _ g. (Inr 2, g)),
      save_model_to_file = (\<lambda>_ _ g. (Inr (), g)),
      quantize_dynamic = (\<lambda>_ _ g. (Inr (), g)),
      InferenceSession = (\<lambda>_ g. (Inr 3, g)),
      tokenizer_call = (\<lambda>_ _ g. (Inr 4, g)),
      session_run = (\<lambda>_ _ g. (Inr 5, g)),
      output_stats = (\<lambda>_ g. (Inr ([1, 6, 384], 0, 0), g))\<rparr>"

definition scenario_B :: world where
  "scenario_B =
     quiet_world [''optimize.py'', ''/tmp/export/model.onnx'', ''/tmp/opt/model.onnx'',
                  ''12'', ''384''] Map.empty"

definition bad_heads_world :: world where
  "bad_heads_world =
     quiet_world [''optimize.py'', ''/tmp/export/model.onnx'', ''/tmp/opt/model.onnx'',
                  ''twelve'', ''384''] Map.empty"

definition scenario_C :: world where
  "scenario_C = quiet_world [''quantize.py'', ''/tmp/missing_dir'', ''/tmp/q''] Map.empty"

definition scenario_A :: world where
  "scenario_A = quiet_world [''download.py'', ''example/mini-model'', ''/tmp/c''] Map.empty"

definition trailing_slash_world :: world where
  "trailing_slash_world =
     quiet_world [''download.py'', ''example/mini-model'', ''/tmp/c/''] Map.empty"

definition no_numpy_world :: world where
  "no_numpy_world =
     (quiet_world [''verify.py'', ''/tmp/q/model_quantized.onnx'', ''/tmp/q''] Map.empty)
       \<lparr>importable := (\<lambda>m. m \<noteq> ''numpy'')\<rparr>"


definition model_dir_files :: fs where
  "model_dir_files =
     [PPath ''/'' [''in''] \<mapsto> Dir,
      PPath ''/'' [''in'', ''model.onnx''] \<mapsto> File [1, 2, 3]]"

text \<open>
  A world whose \<open>quantize_dynamic\<close> writes half of its output file and then raises.
\<close>

definition failing_quantizer_world :: world where
  "failing_quantizer_world =
     (quiet_world [''quantize.py'', ''/in'', ''/out''] model_dir_files)
       \<lparr>quantize_dynamic :=
          (\<lambda>model_input model_output g. (Inl ''boom'', g(Path model_output \<mapsto> File [7])))\<rparr>"

subsection \<open>Sidecar propagation, as a specification\<close>

text \<open>
  A name is simple when pathlib reads it as one relative component, so that \<open>d / n\<close>
  is \<open>d\<close> with \<open>n\<close> appended. \<open>propagated src dst ns f f'\<close> says what the spec asks of
  sidecar propagation from \<open>src\<close> to \<open>dst\<close>, between the file system \<open>f\<close> before and \<open>f'\<close>
  after: each listed name present in \<open>src\<close> is a file whose bytes are then in \<open>dst\<close>
  under the same name; each listed name absent from \<open>src\<close> is left as it was in \<open>dst\<close>;
  and no other path changes.
\<close>

definition simple_name :: "string \<Rightarrow> bool" where
  "simple_name n = (Path n = PPath [] [n])"

definition propagated :: "ppath \<Rightarrow> ppath \<Rightarrow> string list \<Rightarrow> fs \<Rightarrow> fs \<Rightarrow> bool" where
  "propagated src dst ns f f' \<longleftrightarrow>
     (\<forall>n \<in> set ns. path_exists f (joinpath src n) \<longrightarrow>
        (\<exists>d. f (joinpath src n) = Some (File d) \<and> f' (joinpath dst n) = Some (File d)))
   \<and> (\<forall>n \<in> set ns. \<not> path_exists f (joinpath src n) \<longrightarrow>
        f' (joinpath dst n) = f (joinpath dst n))
   \<and> (\<forall>p. (\<forall>n \<in> set ns. p \<noteq> joinpath dst n) \<longrightarrow> f' p = f p)"

text \<open>
  \<open>copy_start st w\<close>: the source directory, the destination directory and the file
  system with which the copy loop of optimize.py or quantize.py starts, when the
  statements before the loop return.
\<close>

definition copy_start :: "stage \<Rightarrow> world \<Rightarrow> (ppath \<times> ppath \<times> fs) option" where
  "copy_start st w =
     (case st of
        Optimize \<Rightarrow>
          (case (argv_at w 1, argv_at w 2, Option.bind (argv_at w 3) py_int,
                 Option.bind (argv_at w 4) py_int) of
             (Some model_path, Some output_path, Some num_heads, Some hidden_size) \<Rightarrow>
               (case optimize_prepare w model_path output_path num_heads hidden_size
                       (initial w) of
                  (Inr _, s) \<Rightarrow>
                    Some (parent (Path model_path), parent (Path output_path), st_files s)
                | (Inl _, _) \<Rightarrow> None)
           | _ \<Rightarrow> None)
      | Quantize \<Rightarrow>
          (case (argv_at w 1, argv_at w 2) of
             (Some model_dir, Some output_dir) \<Rightarrow>
               (case quantize_prepare w model_dir output_dir (initial w) of
                  (Inr _, s) \<Rightarrow> Some (Path model_dir, Path output_dir, st_files s)
                | (Inl _, _) \<Rightarrow> None)
           | _ \<Rightarrow> None)
      | _ \<Rightarrow> None)"

definition sidecar_files :: fs where
  "sidecar_files =
     [PPath ''/'' [''in''] \<mapsto> Dir,
      PPath ''/'' [''in'', ''model.onnx''] \<mapsto> File [1, 2, 3],
      PPath ''/'' [''in'', ''config.json''] \<mapsto> File [4, 5]]"

definition sidecar_world :: world where
  "sidecar_world = quiet_world [''quantize.py'', ''/in'', ''/out''] sidecar_files"

definition stale_output_files :: fs where
  "stale_output_files =
     [PPath ''/'' [''in''] \<mapsto> Dir,
      PPath ''/'' [''in'', ''model.onnx''] \<mapsto> File [1, 2, 3],
      PPath ''/'' [''out''] \<mapsto> Dir,
      PPath ''/'' [''out'', ''vocab.txt''] \<mapsto> File [9]]"

definition stale_output_world :: world where
  "stale_output_world = quiet_world [''quantize.py'', ''/in'', ''/out''] stale_output_files"

subsection \<open>Input and output directories\<close>


definition within :: "ppath \<Rightarrow> ppath \<Rightarrow> bool" where
  "within d p = (root p = root d \<and> take (length (parts d)) (parts p) = parts d)"

definition file_at :: "fs \<Rightarrow> ppath \<Rightarrow> byte list option" where
  "file_at f p = (case f p of Some (File x) \<Rightarrow> Some x | _ \<Rightarrow> None)"

definition files_kept :: "ppath \<Rightarrow> fs \<Rightarrow> fs \<Rightarrow> bool" where
  "files_kept d f f' = (\<forall>p. within d p \<longrightarrow> file_at f' p = file_at f p)"




text \<open>
  Four worlds. In the first, convert.py's input directory holds \<open>config.json\<close> and the
  export call writes \<open>model.onnx\<close> only. In the second, quantize.py is given one
  directory as input and output, and \<open>quantize_dynamic\<close> writes its output file. In the
  third, it writes its output file and the two directories are apart. In the fourth,
  quantize.py's output directory lies inside its input directory.
\<close>

definition export_world :: world where
  "export_world =
     (quiet_world [''convert.py'', ''/dl'', ''/onnx'']
        [PPath ''/'' [''dl''] \<mapsto> Dir, PPath ''/'' [''dl'', ''config.json''] \<mapsto> File [1]])
       \<lparr>main_export :=
          (\<lambda>model_name output task opset device g.
             (Inr (), g(joinpath output ''model.onnx'' \<mapsto> File [0])))\<rparr>"




subsection \<open>Standard output and its observer\<close>

text \<open>
  What follows is not code of the scripts. It is the interpreter's side of \<open>print\<close>, as
  the Python documentation of \<open>sys.stdout\<close> and \<open>io.TextIOWrapper\<close> describes it, written
  down so that what reaches the reader of standard output can be stated at all.
  \<open>print(x)\<close> writes a line to \<open>sys.stdout\<close> and flushes only when called with
  \<open>flush=True\<close>. What the observer at the other end has received therefore depends on
  how the interpreter buffers standard output: line by line (a terminal; also
  \<open>python -u\<close> and \<open>PYTHONUNBUFFERED\<close>, which write through), or in blocks (a pipe or a
  file), where the lines wait in the buffer until a flush or until the buffer is written
  out, at the latest when the process exits. A block buffer is also written out when it
  is full (8192 bytes); \<open>observe\<close> leaves that out. Where a run has printed no more
  than \<open>status_only\<close> below allows before each of its library calls, the buffer is
  never full at a library call, and \<open>observe\<close> is exact for what it reports there.

  \<open>observe b pending delivered t\<close> runs the trace \<open>t\<close>: it gives, for each library call
  of \<open>t\<close>, the records delivered when the call starts, and the records delivered when
  the process has exited. \<open>printed_before acc t\<close> gives, for each library call, the
  records printed before it.
\<close>

datatype buffering = LineBuffered | BlockBuffered

fun observe ::
  "buffering \<Rightarrow> record_line list \<Rightarrow> record_line list \<Rightarrow> action list
     \<Rightarrow> record_line list list \<times> record_line list" where
  "observe b pending delivered [] = ([], delivered @ pending)"
| "observe b pending delivered (Print r # t) =
     (case b of
        LineBuffered \<Rightarrow> observe b [] (delivered @ pending @ [r]) t
      | BlockBuffered \<Rightarrow> observe b (pending @ [r]) delivered t)"
| "observe b pending delivered (Call n # t) =
     (case observe b pending delivered t of (seen, final) \<Rightarrow> (delivered # seen, final))"
| "observe b pending delivered (Flush # t) = observe b [] (delivered @ pending) t"

fun printed_before :: "record_line list \<Rightarrow> action list \<Rightarrow> record_line list list" where
  "printed_before acc [] = []"
| "printed_before acc (Print r # t) = printed_before (acc @ [r]) t"
| "printed_before acc (Call n # t) = acc # printed_before acc t"
| "printed_before acc (Flush # t) = printed_before acc t"

text \<open>
  \<open>short_status r\<close>: the record is \<open>{"status": tag}\<close> with a tag of at most 21
  characters, a line of at most 36 bytes. \<open>status_only p\<close>: \<open>p\<close> is one to four such
  records, at most 144 bytes, far from a full buffer.
\<close>

fun short_status :: "record_line \<Rightarrow> bool" where
  "short_status [(k, JStr tag)] = (k = ''status'' \<and> length tag \<le> 21)"
| "short_status r = False"

definition status_only :: "record_line list \<Rightarrow> bool" where
  "status_only p = (p \<noteq> [] \<and> length p \<le> 4 \<and> list_all short_status p)"

section \<open>Properties\<close>

lemmas comp_defs = returnE_def raiseE_def bindE_def thenE_def py_print_def print_json_def
  status_def lib_call_def mkdir_def

subsection \<open>What a run prints\<close>

lemma copy_files_trace:
  "copy_files a b ns s = (r, s') \<Longrightarrow> st_trace s' = st_trace s"
  by (induction a b ns s rule: copy_files.induct)
     (auto simp: Let_def split: if_splits sum.splits)

lemma records_of_append [simp]: "records_of (xs @ ys) = records_of xs @ records_of ys"
  by (induction xs rule: records_of.induct) auto

lemma download_closes: "closes_well (download_body w m d)"
  unfolding closes_well_def download_body_def
  by (auto simp: comp_defs Let_def is_terminal_def is_success_def is_error_def
      split: sum.splits prod.splits option.splits)

lemma convert_closes: "closes_well (convert_body w m d)"
  unfolding closes_well_def convert_body_def
  by (auto simp: comp_defs Let_def is_terminal_def is_success_def is_error_def
      split: sum.splits prod.splits option.splits)

lemma verify_closes: "closes_well (verify_body w m d t)"
  unfolding closes_well_def verify_body_def
  by (auto simp: comp_defs Let_def is_terminal_def is_success_def is_error_def
      split: sum.splits prod.splits option.splits)

lemma optimize_prepare_trace:
  "optimize_prepare w m p a b s = (r, s') \<Longrightarrow> st_trace s = [] \<Longrightarrow>
   (\<forall>x \<in> set (records_of (st_trace s')). \<not> is_terminal x)
   \<and> (r = Inr () \<longrightarrow> records_of (st_trace s') =
         [[(''status'', JStr ''loading_model'')], [(''status'', JStr ''optimizing'')],
          [(''status'', JStr ''saving'')]])"
  unfolding optimize_prepare_def
  by (auto simp: comp_defs Let_def is_terminal_def is_success_def is_error_def
      split: sum.splits prod.splits option.splits)

lemma quantize_prepare_trace:
  "quantize_prepare w m d s = (r, s') \<Longrightarrow> st_trace s = [] \<Longrightarrow>
   (\<forall>x \<in> set (records_of (st_trace s')). \<not> is_terminal x)
   \<and> (r = Inr () \<longrightarrow> records_of (st_trace s') =
         [[(''status'', JStr ''loading_model'')], [(''status'', JStr ''quantizing'')]])"
  unfolding quantize_prepare_def
  by (auto simp: comp_defs Let_def is_terminal_def is_success_def is_error_def
      split: sum.splits prod.splits option.splits if_splits)

lemma optimize_closes: "closes_well (optimize_body w m p a b)"
  unfolding closes_well_def optimize_body_def
  by (auto simp: bindE_def thenE_def py_print_def print_json_def Let_def is_terminal_def is_success_def
      is_error_def
      dest!: optimize_prepare_trace copy_files_trace
      split: sum.splits prod.splits)

lemma quantize_closes: "closes_well (quantize_body w m d)"
  unfolding closes_well_def quantize_body_def
  by (auto simp: bindE_def thenE_def py_print_def print_json_def Let_def is_terminal_def is_success_def
      is_error_def
      dest!: quantize_prepare_trace copy_files_trace
      split: sum.splits prod.splits)

lemma entered_closes: "stage_entry st w = Entered b \<Longrightarrow> closes_well b"
  by (cases st)
     (auto simp: download_closes convert_closes optimize_closes quantize_closes verify_closes
       split: if_splits option.splits)

lemma reads_ok_entry: "reads_ok st w \<Longrightarrow> stage_entry st w \<noteq> Uncaught"
  by (cases st) (auto simp: reads_ok_def argv_at_def split: if_splits option.splits)

text \<open>
  C1, as the scripts have it. When a script gets past its argument reads, its records end
  with exactly one terminal record, nothing terminal comes before it, and the exit status
  is zero exactly when that record is the success record.
\<close>

theorem stage_terminal_record:
  assumes "reads_ok st w"
  shows "records (run_stage st w) \<noteq> []
       \<and> is_terminal (last (records (run_stage st w)))
       \<and> (\<forall>x \<in> set (butlast (records (run_stage st w))). \<not> is_terminal x)
       \<and> (exit_code (run_stage st w) = 0 \<longleftrightarrow> is_success (last (records (run_stage st w))))"
proof (cases "stage_entry st w")
  case Uncaught
  with reads_ok_entry [OF assms] show ?thesis by simp
next
  case (ImportFailed msg)
  then show ?thesis
    by (simp add: run_stage_def records_def error_record_def is_terminal_def is_error_def
        is_success_def)
next
  case (Entered b)
  obtain r s where run: "b (initial w) = (r, s)" by (cases "b (initial w)")
  from entered_closes [OF Entered] run
  have cw: "case r of
        Inl e \<Rightarrow> \<forall>x \<in> set (records_of (st_trace s)). \<not> is_terminal x
      | Inr _ \<Rightarrow> records_of (st_trace s) \<noteq> [] \<and> is_success (last (records_of (st_trace s)))
                 \<and> \<not> is_error (last (records_of (st_trace s)))
                 \<and> (\<forall>x \<in> set (butlast (records_of (st_trace s))). \<not> is_terminal x)"
    unfolding closes_well_def by (auto simp: initial_def)
  show ?thesis
  proof (cases r)
    case (Inl e)
    with cw Entered run show ?thesis
      by (simp add: run_stage_def run_guarded_def records_def error_record_def
          is_terminal_def is_error_def is_success_def)
  next
    case (Inr u)
    with cw Entered run show ?thesis
      by (simp add: run_stage_def run_guarded_def records_def is_terminal_def)
  qed
qed

lemmas path_defs = Path_def splitroot_def joinpath_def parent_def str_path_def lookup_def
  path_exists_def

lemmas int_defs = py_int_def strip_def is_space_def digits_def digit_val_def

theorem stage_terminal_record_witness:
  "reads_ok Optimize scenario_B
   \<and> records (run_stage Optimize scenario_B) \<noteq> []
   \<and> is_terminal (last (records (run_stage Optimize scenario_B)))
   \<and> list_all (\<lambda>x. \<not> is_terminal x) (butlast (records (run_stage Optimize scenario_B)))
   \<and> (exit_code (run_stage Optimize scenario_B) = 0
        \<longleftrightarrow> is_success (last (records (run_stage Optimize scenario_B))))"
proof -
  have ok: "reads_ok Optimize scenario_B"
    by (simp add: reads_ok_def scenario_B_def quiet_world_def int_defs)
  from stage_terminal_record [OF ok] ok show ?thesis by (simp add: list_all_iff)
qed

text \<open>
  C1 as stated fails: optimize.py converts its third argument with \<open>int\<close> before the
  \<open>try\<close> block, so a head count that is not a number ends the run with no record.
\<close>

theorem stage_terminal_record_counterexample:
  "records (run_stage Optimize bad_heads_world) = []
   \<and> exit_code (run_stage Optimize bad_heads_world) = 1"
  by (simp add: run_stage_def bad_heads_world_def quiet_world_def argv_at_def records_def
      int_defs)

text \<open>
  C2. When \<open>model.onnx\<close> is missing from the input directory, quantize.py ends with an
  error record and a nonzero exit status, calls no library, and leaves the file system as
  it found it, so no \<open>model_quantized.onnx\<close> appears.
\<close>

theorem quantize_missing_model:
  assumes "argv_at w 1 = Some model_dir" and "argv_at w 2 = Some output_dir"
    and "\<not> path_exists (files w) (joinpath (Path model_dir) ''model.onnx'')"
  shows "is_error (last (records (run_stage Quantize w)))
       \<and> exit_code (run_stage Quantize w) = 1
       \<and> final_files (run_stage Quantize w) = files w
       \<and> (\<forall>n. Call n \<notin> set (trace (run_stage Quantize w)))"
  using assms
  by (simp add: run_stage_def run_guarded_def initial_def quantize_body_def quantize_prepare_def
      comp_defs records_def is_error_def error_record_def Let_def)

theorem quantize_missing_model_witness:
  "argv_at scenario_C 1 = Some ''/tmp/missing_dir''
   \<and> argv_at scenario_C 2 = Some ''/tmp/q''
   \<and> \<not> path_exists (files scenario_C) (joinpath (Path ''/tmp/missing_dir'') ''model.onnx'')
   \<and> is_error (last (records (run_stage Quantize scenario_C)))
   \<and> exit_code (run_stage Quantize scenario_C) = 1
   \<and> final_files (run_stage Quantize scenario_C) = files scenario_C"
proof -
  have a: "argv_at scenario_C 1 = Some ''/tmp/missing_dir''"
    and b: "argv_at scenario_C 2 = Some ''/tmp/q''"
    by (simp_all add: scenario_C_def quiet_world_def argv_at_def)
  have c: "\<not> path_exists (files scenario_C) (joinpath (Path ''/tmp/missing_dir'') ''model.onnx'')"
    by (simp add: scenario_C_def quiet_world_def path_defs Let_def)
  from quantize_missing_model [OF a b c] a b c show ?thesis by simp
qed

subsection \<open>The import guard\<close>

lemma import_guard_single_record:
  "stage_entry st w = ImportFailed msg \<Longrightarrow>
     records (run_stage st w) = [error_record msg] \<and> exit_code (run_stage st w) = 1
     \<and> final_files (run_stage st w) = files w"
  by (simp add: run_stage_def records_def)

lemma import_guard_catches:
  "\<not> importable w ''transformers'' \<Longrightarrow>
     stage_entry Download w = ImportFailed ''transformers not installed''"
  "\<not> (importable w ''optimum.exporters.onnx'' \<and> importable w ''transformers'') \<Longrightarrow>
     stage_entry Export w = ImportFailed ''optimum[exporters] not installed''"
  "\<not> (importable w ''onnxruntime.transformers.optimizer''
       \<and> importable w ''onnxruntime.transformers.fusion_options'') \<Longrightarrow>
     stage_entry Optimize w = ImportFailed ''onnxruntime not installed''"
  "\<not> (importable w ''onnxruntime.quantization'' \<and> importable w ''onnx'') \<Longrightarrow>
     stage_entry Quantize w = ImportFailed ''onnxruntime not installed''"
  "importable w ''numpy'' \<Longrightarrow>
   \<not> (importable w ''onnxruntime'' \<and> importable w ''transformers'') \<Longrightarrow>
     stage_entry Verify w = ImportFailed ''onnxruntime or transformers not installed''"
  by simp_all

text \<open>
  C3 at the input where the code departs from it. verify.py imports numpy above its
  import guard; without numpy the script prints no record at all.
\<close>

theorem verify_without_numpy:
  "records (run_stage Verify no_numpy_world) = []
   \<and> exit_code (run_stage Verify no_numpy_world) = 1"
  by (simp add: run_stage_def no_numpy_world_def quiet_world_def records_def)

subsection \<open>The exception handler\<close>

text \<open>
  C5. Whatever exception the body of a stage raises, the run ends with the error record
  that carries its message and with exit status 1; the files are those of the moment the
  exception was raised.
\<close>

theorem exception_reported:
  assumes "stage_entry st w = Entered b" and "b (initial w) = (Inl e, s)"
  shows "records (run_stage st w) = records_of (st_trace s) @ [error_record (exc_str e)]
       \<and> exit_code (run_stage st w) = 1
       \<and> final_files (run_stage st w) = st_files s"
  using assms by (simp add: run_stage_def run_guarded_def records_def)

lemmas fs_defs = mkdir_parents.simps mkdir_exist_ok_def os_mkdir_def ancestors_def
  read_bytes_def write_bytes_def os_error_def

theorem exception_reported_witness:
  "stage_entry Quantize failing_quantizer_world = Entered (quantize_body failing_quantizer_world ''/in'' ''/out'')
   \<and> records (run_stage Quantize failing_quantizer_world) =
       [[(''status'', JStr ''loading_model'')], [(''status'', JStr ''quantizing'')],
        [(''error'', JStr ''boom'')]]
   \<and> exit_code (run_stage Quantize failing_quantizer_world) = 1
   \<and> final_files (run_stage Quantize failing_quantizer_world)
        (PPath ''/'' [''out'', ''model_quantized.onnx'']) = Some (File [7])"
proof -
  let ?w = failing_quantizer_world
  let ?s = "\<lparr>st_trace = [Print [(''status'', JStr ''loading_model'')],
                         Print [(''status'', JStr ''quantizing'')], Call ''quantize_dynamic''],
             st_files = (model_dir_files(PPath ''/'' [''out''] \<mapsto> Dir))
                          (PPath ''/'' [''out'', ''model_quantized.onnx''] \<mapsto> File [7])\<rparr>"
  have a: "stage_entry Quantize ?w = Entered (quantize_body ?w ''/in'' ''/out'')"
    by (simp add: failing_quantizer_world_def quiet_world_def argv_at_def)
  have b: "quantize_body ?w ''/in'' ''/out'' (initial ?w) = (Inl (Exc ''Exception'' ''boom''), ?s)"
    by (simp add: failing_quantizer_world_def quiet_world_def quantize_body_def
        quantize_prepare_def comp_defs path_defs fs_defs initial_def model_dir_files_def Let_def)
  from exception_reported [OF a b] a show ?thesis
    by (simp add: error_record_def)
qed

subsection \<open>The records of a successful run\<close>

lemma download_success:
  "download_body w m d s = (Inr u, s') \<Longrightarrow> st_trace s = [] \<Longrightarrow>
   records_of (st_trace s') =
     [[(''status'', JStr ''downloading_model'')], [(''status'', JStr ''downloading_tokenizer'')],
      [(''status'', JStr ''saving_model'')], [(''status'', JStr ''saving_tokenizer'')],
      [(''status'', JStr ''complete''), (''cache_dir'', JStr (str_path (Path d)))]]"
  unfolding download_body_def
  by (auto simp: comp_defs Let_def split: sum.splits prod.splits option.splits)

lemma optimize_success:
  "optimize_body w m p a b s = (Inr u, s') \<Longrightarrow> st_trace s = [] \<Longrightarrow>
   records_of (st_trace s') =
     [[(''status'', JStr ''loading_model'')], [(''status'', JStr ''optimizing'')],
      [(''status'', JStr ''saving'')],
      [(''status'', JStr ''complete''), (''output_path'', JStr p)]]"
  unfolding optimize_body_def
  by (auto simp: bindE_def thenE_def py_print_def print_json_def Let_def
      dest!: optimize_prepare_trace copy_files_trace
      split: sum.splits prod.splits)

lemma exit_zero_entered:
  "exit_code (run_stage st w) = 0 \<Longrightarrow>
   \<exists>b u s. stage_entry st w = Entered b \<and> b (initial w) = (Inr u, s)
     \<and> trace (run_stage st w) = st_trace s \<and> final_files (run_stage st w) = st_files s"
  by (auto simp: run_stage_def run_guarded_def split: entry.splits sum.splits prod.splits)

text \<open>
  C7, as the scripts have it. A successful download prints its four status records in
  order and then the success record, whose \<open>cache_dir\<close> is \<open>str(Path(d))\<close>: the
  directory argument as pathlib writes it, not always the argument itself. A successful
  optimize prints its three status records and then the success record with the output
  path exactly as given.
\<close>

theorem success_records:
  "(argv_at w 2 = Some d \<and> exit_code (run_stage Download w) = 0 \<longrightarrow>
      records (run_stage Download w) =
        [[(''status'', JStr ''downloading_model'')],
         [(''status'', JStr ''downloading_tokenizer'')],
         [(''status'', JStr ''saving_model'')],
         [(''status'', JStr ''saving_tokenizer'')],
         [(''status'', JStr ''complete''), (''cache_dir'', JStr (str_path (Path d)))]])
   \<and> (argv_at w 2 = Some p \<and> exit_code (run_stage Optimize w) = 0 \<longrightarrow>
      records (run_stage Optimize w) =
        [[(''status'', JStr ''loading_model'')],
         [(''status'', JStr ''optimizing'')],
         [(''status'', JStr ''saving'')],
         [(''status'', JStr ''complete''), (''output_path'', JStr p)]])"
proof (intro conjI impI)
  assume h: "argv_at w 2 = Some d \<and> exit_code (run_stage Download w) = 0"
  then obtain b u s where e: "stage_entry Download w = Entered b"
    and r: "b (initial w) = (Inr u, s)" and t: "trace (run_stage Download w) = st_trace s"
    using exit_zero_entered by blast
  from e h obtain m where "b = download_body w m d"
    by (auto split: if_splits option.splits)
  with r t show "records (run_stage Download w) =
        [[(''status'', JStr ''downloading_model'')],
         [(''status'', JStr ''downloading_tokenizer'')],
         [(''status'', JStr ''saving_model'')],
         [(''status'', JStr ''saving_tokenizer'')],
         [(''status'', JStr ''complete''), (''cache_dir'', JStr (str_path (Path d)))]]"
    using download_success [of w m d "initial w" u s] by (simp add: records_def initial_def)
next
  assume h: "argv_at w 2 = Some p \<and> exit_code (run_stage Optimize w) = 0"
  then obtain b u s where e: "stage_entry Optimize w = Entered b"
    and r: "b (initial w) = (Inr u, s)" and t: "trace (run_stage Optimize w) = st_trace s"
    using exit_zero_entered by blast
  from e h obtain m x y where "b = optimize_body w m p x y"
    by (auto split: if_splits option.splits)
  with r t show "records (run_stage Optimize w) =
        [[(''status'', JStr ''loading_model'')],
         [(''status'', JStr ''optimizing'')],
         [(''status'', JStr ''saving'')],
         [(''status'', JStr ''complete''), (''output_path'', JStr p)]]"
    using optimize_success [of w m p x y "initial w" u s] by (simp add: records_def initial_def)
qed

lemma run_A: "exit_code (run_stage Download scenario_A) = 0"
  by (simp add: run_stage_def run_guarded_def scenario_A_def quiet_world_def argv_at_def
      download_body_def comp_defs path_defs fs_defs initial_def Let_def)

lemma run_B: "exit_code (run_stage Optimize scenario_B) = 0"
  by (simp add: run_stage_def run_guarded_def scenario_B_def quiet_world_def argv_at_def
      optimize_body_def optimize_prepare_def optimize_manifest_def int_defs
      comp_defs path_defs fs_defs initial_def Let_def)

theorem success_records_witness:
  "records (run_stage Download scenario_A) =
        [[(''status'', JStr ''downloading_model'')],
         [(''status'', JStr ''downloading_tokenizer'')],
         [(''status'', JStr ''saving_model'')],
         [(''status'', JStr ''saving_tokenizer'')],
         [(''status'', JStr ''complete''), (''cache_dir'', JStr ''/tmp/c'')]]
   \<and> records (run_stage Optimize scenario_B) =
        [[(''status'', JStr ''loading_model'')],
         [(''status'', JStr ''optimizing'')],
         [(''status'', JStr ''saving'')],
         [(''status'', JStr ''complete''), (''output_path'', JStr ''/tmp/opt/model.onnx'')]]"
proof -
  have a: "argv_at scenario_A 2 = Some ''/tmp/c''"
    by (simp add: scenario_A_def quiet_world_def argv_at_def)
  have b: "argv_at scenario_B 2 = Some ''/tmp/opt/model.onnx''"
    by (simp add: scenario_B_def quiet_world_def argv_at_def)
  have c: "str_path (Path ''/tmp/c'') = ''/tmp/c''"
    by (simp add: path_defs)
  from success_records [of scenario_A "''/tmp/c''"] a run_A c
  have 1: "records (run_stage Download scenario_A) =
        [[(''status'', JStr ''downloading_model'')],
         [(''status'', JStr ''downloading_tokenizer'')],
         [(''status'', JStr ''saving_model'')],
         [(''status'', JStr ''saving_tokenizer'')],
         [(''status'', JStr ''complete''), (''cache_dir'', JStr ''/tmp/c'')]]"
    by simp
  from success_records [of scenario_B _ "''/tmp/opt/model.onnx''"] b run_B
  have 2: "records (run_stage Optimize scenario_B) =
        [[(''status'', JStr ''loading_model'')],
         [(''status'', JStr ''optimizing'')],
         [(''status'', JStr ''saving'')],
         [(''status'', JStr ''complete''), (''output_path'', JStr ''/tmp/opt/model.onnx'')]]"
    by simp
  from 1 2 show ?thesis by simp
qed

text \<open>
  C7 as stated fails for a cache directory written with a trailing slash: the record
  carries \<open>/tmp/c\<close>, not \<open>/tmp/c/\<close>.
\<close>

theorem success_records_counterexample:
  "argv_at trailing_slash_world 2 = Some ''/tmp/c/''
   \<and> exit_code (run_stage Download trailing_slash_world) = 0
   \<and> last (records (run_stage Download trailing_slash_world)) =
       [(''status'', JStr ''complete''), (''cache_dir'', JStr ''/tmp/c'')]
   \<and> last (records (run_stage Download trailing_slash_world)) \<noteq>
       [(''status'', JStr ''complete''), (''cache_dir'', JStr ''/tmp/c/'')]"
  by (simp add: run_stage_def run_guarded_def trailing_slash_world_def quiet_world_def
      argv_at_def records_def
      download_body_def comp_defs path_defs fs_defs initial_def Let_def)

subsection \<open>The probe text of verify.py\<close>





subsection \<open>The copy loop\<close>

lemma joinpath_simple: "simple_name n \<Longrightarrow> joinpath d n = PPath (root d) (parts d @ [n])"
  by (simp add: simple_name_def joinpath_def)

lemma joinpath_simple_eq:
  "simple_name n \<Longrightarrow> simple_name m \<Longrightarrow> joinpath a n = joinpath b m \<longleftrightarrow> a = b \<and> n = m"
  by (cases a; cases b) (auto simp: joinpath_simple)

lemma lookup_joinpath: "simple_name n \<Longrightarrow> lookup f (joinpath d n) = f (joinpath d n)"
  by (simp add: joinpath_simple lookup_def)

lemma manifest_simple:
  "n \<in> set optimize_manifest \<Longrightarrow> simple_name n"
  "n \<in> set quantize_manifest \<Longrightarrow> simple_name n"
  by (auto simp: optimize_manifest_def quantize_manifest_def simple_name_def Path_def
      splitroot_def)

lemma exists_joinpath:
  "simple_name n \<Longrightarrow> path_exists f (joinpath d n) \<longleftrightarrow> f (joinpath d n) \<noteq> None"
  by (simp add: path_exists_def lookup_joinpath)

lemma read_bytes_Inr: "read_bytes p f = Inr d \<longleftrightarrow> lookup f p = Some (File d)"
  by (auto simp: read_bytes_def split: option.splits node.splits)

lemma write_bytes_Inr: "write_bytes p d f = Inr f' \<Longrightarrow> f' = f(p \<mapsto> File d)"
  by (auto simp: write_bytes_def split: option.splits node.splits)

lemma propagated_step_exists:
  assumes sn: "simple_name n" and rest: "\<forall>m \<in> set ns. simple_name m"
    and src: "f (joinpath src n) = Some (File d)"
    and ih: "propagated src dst ns (f(joinpath dst n \<mapsto> File d)) f'"
    and keep: "\<forall>m. simple_name m \<longrightarrow> f' (joinpath src m) = (f(joinpath dst n \<mapsto> File d)) (joinpath src m)"
  shows "propagated src dst (n # ns) f f'"
proof -
  let ?g = "f(joinpath dst n \<mapsto> File d)"
  have K: "?g (joinpath src m) = f (joinpath src m)" if "simple_name m" for m
    using that sn src by (auto simp: joinpath_simple_eq)
  have E: "path_exists ?g (joinpath src m) \<longleftrightarrow> path_exists f (joinpath src m)"
    if "simple_name m" for m
    using that K by (simp add: exists_joinpath)
  have a: "\<exists>d'. f (joinpath src m) = Some (File d') \<and> f' (joinpath dst m) = Some (File d')"
    if "m \<in> set (n # ns)" "path_exists f (joinpath src m)" for m
  proof (cases "m \<in> set ns")
    case True
    with rest have "simple_name m" by simp
    with ih True that E K show ?thesis unfolding propagated_def by metis
  next
    case False
    with that have mn: "m = n" by simp
    from False rest sn have "\<forall>k \<in> set ns. joinpath dst n \<noteq> joinpath dst k"
      by (auto simp: joinpath_simple_eq mn)
    with ih have "f' (joinpath dst n) = ?g (joinpath dst n)" unfolding propagated_def by blast
    with src mn show ?thesis by simp
  qed
  have b: "f' (joinpath dst m) = f (joinpath dst m)"
    if "m \<in> set (n # ns)" "\<not> path_exists f (joinpath src m)" for m
  proof -
    from that src sn have mn: "m \<noteq> n" by (auto simp: exists_joinpath)
    with that have ms: "m \<in> set ns" by simp
    with rest have sm: "simple_name m" by simp
    with that E have "\<not> path_exists ?g (joinpath src m)" by simp
    with ih ms have "f' (joinpath dst m) = ?g (joinpath dst m)" unfolding propagated_def by blast
    with mn sm sn show ?thesis by (simp add: joinpath_simple_eq)
  qed
  have c: "f' p = f p" if "\<forall>m \<in> set (n # ns). p \<noteq> joinpath dst m" for p
  proof -
    from that ih have "f' p = ?g p" unfolding propagated_def by simp
    with that show ?thesis by simp
  qed
  from a b c show ?thesis unfolding propagated_def by blast
qed

lemma propagated_step_absent:
  assumes sn: "simple_name n" and rest: "\<forall>m \<in> set ns. simple_name m"
    and src: "\<not> path_exists f (joinpath src n)"
    and ih: "propagated src dst ns f f'"
  shows "propagated src dst (n # ns) f f'"
proof -
  have b: "f' (joinpath dst n) = f (joinpath dst n)"
  proof (cases "n \<in> set ns")
    case True
    with ih src show ?thesis unfolding propagated_def by blast
  next
    case False
    with rest sn have "\<forall>k \<in> set ns. joinpath dst n \<noteq> joinpath dst k"
      by (auto simp: joinpath_simple_eq)
    with ih show ?thesis unfolding propagated_def by blast
  qed
  with ih src show ?thesis unfolding propagated_def by auto
qed

lemma copy_files_spec:
  assumes "copy_files src dst ns s = (Inr u, s')" and "\<forall>n \<in> set ns. simple_name n"
  shows "propagated src dst ns (st_files s) (st_files s')
       \<and> (\<forall>n. simple_name n \<longrightarrow> st_files s' (joinpath src n) = st_files s (joinpath src n))"
  using assms
proof (induction src dst ns s rule: copy_files.induct)
  case (1 src dst s)
  then show ?case by (simp add: propagated_def)
next
  case (2 src dst name rest s)
  have sn: "simple_name name" and sr: "\<forall>m \<in> set rest. simple_name m"
    using "2.prems" by simp_all
  show ?case
  proof (cases "path_exists (st_files s) (joinpath src name)")
    case False
    with "2.prems" have run: "copy_files src dst rest s = (Inr u, s')" by (simp add: Let_def)
    from "2.IH"(2) [OF refl False run sr]
    have ih: "propagated src dst rest (st_files s) (st_files s')"
      and keep: "\<forall>n. simple_name n \<longrightarrow> st_files s' (joinpath src n) = st_files s (joinpath src n)"
      by simp_all
    from propagated_step_absent [OF sn sr False ih] keep show ?thesis by simp
  next
    case True
    with "2.prems" obtain d f' where rd: "read_bytes (joinpath src name) (st_files s) = Inr d"
      and wr: "write_bytes (joinpath dst name) d (st_files s) = Inr f'"
      and run: "copy_files src dst rest (s\<lparr>st_files := f'\<rparr>) = (Inr u, s')"
      by (auto simp: Let_def split: sum.splits)
    from rd sn have src: "st_files s (joinpath src name) = Some (File d)"
      by (simp add: read_bytes_Inr lookup_joinpath)
    from wr have f': "f' = (st_files s)(joinpath dst name \<mapsto> File d)"
      by (rule write_bytes_Inr)
    from "2.IH"(1) [OF refl True refl rd wr run sr]
    have ih: "propagated src dst rest f' (st_files s')"
      and keep: "\<forall>n. simple_name n \<longrightarrow> st_files s' (joinpath src n) = f' (joinpath src n)"
      by simp_all
    have K: "f' (joinpath src m) = st_files s (joinpath src m)" if "simple_name m" for m
      using that sn src f' by (auto simp: joinpath_simple_eq)
    from propagated_step_exists [OF sn sr src ih [unfolded f'] keep [unfolded f']] keep K
    show ?thesis by simp
  qed
qed

subsection \<open>Sidecar propagation\<close>

lemma propagated_set:
  "set ns = set ms \<Longrightarrow> propagated src dst ns f f' \<longleftrightarrow> propagated src dst ms f f'"
  by (simp add: propagated_def)

lemma manifests_same: "set quantize_manifest = set optimize_manifest"
  by (auto simp: quantize_manifest_def optimize_manifest_def)

lemma propagated_fresh:
  assumes p: "propagated src dst ns f f'" and sn: "\<forall>n \<in> set ns. simple_name n"
    and fresh: "\<forall>n \<in> set ns. \<not> path_exists f (joinpath dst n)"
    and n: "n \<in> set ns"
  shows "path_exists f' (joinpath dst n) \<longleftrightarrow> path_exists f (joinpath src n)"
proof (cases "path_exists f (joinpath src n)")
  case True
  with p n obtain d where "f' (joinpath dst n) = Some (File d)"
    unfolding propagated_def by blast
  with True n sn show ?thesis by (simp add: exists_joinpath)
next
  case False
  with p n have "f' (joinpath dst n) = f (joinpath dst n)"
    unfolding propagated_def by blast
  with False fresh n sn show ?thesis by (simp add: exists_joinpath)
qed

lemma optimize_copy:
  assumes "optimize_body w m p a b (initial w) = (Inr u, s)"
  shows "\<exists>s1. optimize_prepare w m p a b (initial w) = (Inr (), s1)
       \<and> propagated (parent (Path m)) (parent (Path p)) optimize_manifest
            (st_files s1) (st_files s)"
proof -
  from assms obtain s1 s2 where
    pre: "optimize_prepare w m p a b (initial w) = (Inr (), s1)"
    and cp: "copy_files (parent (Path m)) (parent (Path p)) optimize_manifest s1 = (Inr (), s2)"
    and fin: "st_files s = st_files s2"
    by (auto simp: optimize_body_def bindE_def thenE_def py_print_def print_json_def Let_def
        split: sum.splits prod.splits)
  from copy_files_spec [OF cp] manifest_simple(1) fin pre show ?thesis by auto
qed

lemma quantize_copy:
  assumes "quantize_body w m d (initial w) = (Inr u, s)"
  shows "\<exists>s1. quantize_prepare w m d (initial w) = (Inr (), s1)
       \<and> propagated (Path m) (Path d) optimize_manifest (st_files s1) (st_files s)"
proof -
  from assms obtain s1 s2 where
    pre: "quantize_prepare w m d (initial w) = (Inr (), s1)"
    and cp: "copy_files (Path m) (Path d) quantize_manifest s1 = (Inr (), s2)"
    and fin: "st_files s = st_files s2"
    by (auto simp: quantize_body_def bindE_def thenE_def py_print_def print_json_def Let_def
        split: sum.splits prod.splits)
  from copy_files_spec [OF cp] manifest_simple(2) fin pre
  have "propagated (Path m) (Path d) quantize_manifest (st_files s1) (st_files s)" by auto
  with pre propagated_set [OF manifests_same] show ?thesis by blast
qed

lemma stage_propagates:
  assumes "st = Optimize \<or> st = Quantize" and "exit_code (run_stage st w) = 0"
  shows "\<exists>src dst f. copy_start st w = Some (src, dst, f)
       \<and> propagated src dst optimize_manifest f (final_files (run_stage st w))"
proof -
  from assms(2) obtain b u s where e: "stage_entry st w = Entered b"
    and r: "b (initial w) = (Inr u, s)" and fin: "final_files (run_stage st w) = st_files s"
    using exit_zero_entered by blast
  have "\<exists>src dst f. copy_start st w = Some (src, dst, f)
       \<and> propagated src dst optimize_manifest f (st_files s)"
    using assms(1)
  proof
    assume st: "st = Optimize"
    with e obtain m p a3 a4 x y where args: "argv_at w 1 = Some m" "argv_at w 2 = Some p"
      "argv_at w 3 = Some a3" "py_int a3 = Some x" "argv_at w 4 = Some a4" "py_int a4 = Some y"
      and b: "b = optimize_body w m p x y"
      by (auto split: if_splits option.splits)
    from optimize_copy r b obtain s1 where
      "optimize_prepare w m p x y (initial w) = (Inr (), s1)"
      "propagated (parent (Path m)) (parent (Path p)) optimize_manifest (st_files s1) (st_files s)"
      by blast
    with st args show ?thesis by (simp add: copy_start_def)
  next
    assume st: "st = Quantize"
    with e obtain m d where args: "argv_at w 1 = Some m" "argv_at w 2 = Some d"
      and b: "b = quantize_body w m d"
      by (auto split: if_splits option.splits)
    from quantize_copy r b obtain s1 where
      "quantize_prepare w m d (initial w) = (Inr (), s1)"
      "propagated (Path m) (Path d) optimize_manifest (st_files s1) (st_files s)"
      by blast
    with st args show ?thesis by (simp add: copy_start_def)
  qed
  with fin show ?thesis by simp
qed

text \<open>
  C4, as the scripts have it. In a successful run of optimize.py or quantize.py the copy
  loop propagates the manifest from the input directory to the output directory: a
  manifest file present in the input directory when the loop starts is in the output
  directory with the same bytes, an absent one is skipped without error, and no other
  path changes. The output directory then holds exactly the manifest files of the input
  directory provided it held none of them when the loop started: the loop removes
  nothing.
\<close>

theorem sidecar_propagation:
  assumes "st = Optimize \<or> st = Quantize" and "exit_code (run_stage st w) = 0"
  shows "\<exists>src dst f. copy_start st w = Some (src, dst, f)
       \<and> propagated src dst optimize_manifest f (final_files (run_stage st w))
       \<and> ((\<forall>n \<in> set optimize_manifest. \<not> path_exists f (joinpath dst n)) \<longrightarrow>
            (\<forall>n \<in> set optimize_manifest.
               path_exists (final_files (run_stage st w)) (joinpath dst n)
                 \<longleftrightarrow> path_exists f (joinpath src n)))"
proof -
  from stage_propagates [OF assms]
  obtain src dst f where cs: "copy_start st w = Some (src, dst, f)"
    and pr: "propagated src dst optimize_manifest f (final_files (run_stage st w))" by blast
  have "\<forall>n \<in> set optimize_manifest. simple_name n" using manifest_simple(1) by blast
  with pr have "(\<forall>n \<in> set optimize_manifest. \<not> path_exists f (joinpath dst n)) \<longrightarrow>
            (\<forall>n \<in> set optimize_manifest.
               path_exists (final_files (run_stage st w)) (joinpath dst n)
                 \<longleftrightarrow> path_exists f (joinpath src n))"
    using propagated_fresh by blast
  with cs pr show ?thesis by simp
qed

lemma run_sidecar:
  "exit_code (run_stage Quantize sidecar_world) = 0
   \<and> final_files (run_stage Quantize sidecar_world) (PPath ''/'' [''out'', ''config.json''])
       = Some (File [4, 5])
   \<and> final_files (run_stage Quantize sidecar_world) (PPath ''/'' [''out'', ''vocab.txt''])
       = None"
  by (simp add: run_stage_def run_guarded_def sidecar_world_def quiet_world_def argv_at_def
      quantize_body_def quantize_prepare_def quantize_manifest_def sidecar_files_def
      comp_defs path_defs fs_defs initial_def Let_def)

theorem sidecar_propagation_witness:
  "exit_code (run_stage Quantize sidecar_world) = 0
   \<and> final_files (run_stage Quantize sidecar_world) (PPath ''/'' [''out'', ''config.json''])
       = Some (File [4, 5])
   \<and> final_files (run_stage Quantize sidecar_world) (PPath ''/'' [''out'', ''vocab.txt''])
       = None
   \<and> (\<exists>src dst f. copy_start Quantize sidecar_world = Some (src, dst, f)
       \<and> propagated src dst optimize_manifest f (final_files (run_stage Quantize sidecar_world)))"
proof -
  from run_sidecar have z: "exit_code (run_stage Quantize sidecar_world) = 0" by simp
  from sidecar_propagation [of Quantize sidecar_world] z
  have "\<exists>src dst f. copy_start Quantize sidecar_world = Some (src, dst, f)
       \<and> propagated src dst optimize_manifest f (final_files (run_stage Quantize sidecar_world))"
    by blast
  with run_sidecar show ?thesis by simp
qed

text \<open>
  C4 as stated fails when the output directory already holds a manifest file that the
  input directory lacks: after a successful run \<open>vocab.txt\<close> is in \<open>/out\<close> and not in
  \<open>/in\<close>.
\<close>

theorem sidecar_propagation_counterexample:
  "exit_code (run_stage Quantize stale_output_world) = 0
   \<and> path_exists (final_files (run_stage Quantize stale_output_world))
        (joinpath (Path ''/out'') ''vocab.txt'')
   \<and> \<not> path_exists (final_files (run_stage Quantize stale_output_world))
        (joinpath (Path ''/in'') ''vocab.txt'')
   \<and> \<not> path_exists (files stale_output_world) (joinpath (Path ''/in'') ''vocab.txt'')"
  by (simp add: run_stage_def run_guarded_def stale_output_world_def quiet_world_def argv_at_def
      quantize_body_def quantize_prepare_def quantize_manifest_def stale_output_files_def
      comp_defs path_defs fs_defs initial_def Let_def)

subsection \<open>Creating a directory\<close>

lemma os_mkdir_Inr: "os_mkdir p f = Inr f' \<Longrightarrow> f' = f(p \<mapsto> Dir) \<and> f p = None"
  by (auto simp: os_mkdir_def lookup_def split: option.splits if_splits)

lemma os_mkdir_file_at: "os_mkdir p f = Inr f' \<Longrightarrow> file_at f' q = file_at f q"
  by (drule os_mkdir_Inr) (auto simp: file_at_def)

lemma mkdir_exist_ok_file_at: "file_at (snd (mkdir_exist_ok p f)) q = file_at f q"
  by (auto simp: mkdir_exist_ok_def os_mkdir_file_at split: sum.splits)

lemma mkdir_parents_file_at: "file_at (snd (mkdir_parents p f)) q = file_at f q"
proof (induction p f rule: mkdir_parents.induct)
  case (1 p f)
  show ?case
  proof (cases "os_mkdir p f")
    case (Inr f')
    then show ?thesis
      by (subst mkdir_parents.simps) (simp add: os_mkdir_file_at)
  next
    case (Inl e)
    show ?thesis
    proof (cases "exc_class e = ''FileNotFoundError'' \<and> parent p \<noteq> p")
      case False
      with Inl show ?thesis
        by (subst mkdir_parents.simps) auto
    next
      case True
      obtain r f' where m: "mkdir_parents (parent p) f = (r, f')"
        by (cases "mkdir_parents (parent p) f")
      from "1.IH" [OF Inl] True m have ih: "file_at f' q = file_at f q" by simp
      show ?thesis
      proof (cases r)
        case None
        with Inl True m ih show ?thesis
          by (subst mkdir_parents.simps) (simp add: mkdir_exist_ok_file_at)
      next
        case (Some e')
        with Inl True m ih show ?thesis
          by (subst mkdir_parents.simps) simp
      qed
    qed
  qed
qed

subsection \<open>The export stage\<close>

lemma convert_files:
  assumes "convert_body w c od (initial w) = (Inr u, s)"
  shows "\<exists>f1. mkdir_parents (Path od) (files w) = (None, f1)
       \<and> st_files s = snd (main_export w c (Path od) ''feature-extraction'' 18 ''cpu'' f1)"
  using assms
  by (auto simp: convert_body_def comp_defs initial_def Let_def
      split: sum.splits prod.splits option.splits)

lemma mkdir_parents_files:
  "mkdir_parents p f = (r, f1) \<Longrightarrow> file_at f1 q = file_at f q"
  using mkdir_parents_file_at [of p f q] by simp

text \<open>
  C6, as the scripts have it. optimize.py and quantize.py have the same copy loop over
  the same five names (in different orders): a successful run of either propagates that
  one manifest from its input directory to its output directory. convert.py has no copy
  step: in a successful run its own code creates the output directory, which changes no
  regular file, and calls the exporter, and the file system it leaves is the one the
  exporter left.
\<close>

theorem export_has_no_copy:
  "set quantize_manifest = set optimize_manifest
   \<and> ((st = Optimize \<or> st = Quantize) \<and> exit_code (run_stage st w) = 0 \<longrightarrow>
        (\<exists>src dst f. copy_start st w = Some (src, dst, f)
           \<and> propagated src dst optimize_manifest f (final_files (run_stage st w))))
   \<and> (argv_at v 1 = Some c \<and> argv_at v 2 = Some od \<and> exit_code (run_stage Export v) = 0 \<longrightarrow>
        copy_start Export v = None
        \<and> (\<exists>f1. mkdir_parents (Path od) (files v) = (None, f1)
              \<and> (\<forall>q. file_at f1 q = file_at (files v) q)
              \<and> final_files (run_stage Export v) =
                  snd (main_export v c (Path od) ''feature-extraction'' 18 ''cpu'' f1)))"
proof (intro conjI impI)
  show "set quantize_manifest = set optimize_manifest" by (rule manifests_same)
next
  assume "(st = Optimize \<or> st = Quantize) \<and> exit_code (run_stage st w) = 0"
  then show "\<exists>src dst f. copy_start st w = Some (src, dst, f)
           \<and> propagated src dst optimize_manifest f (final_files (run_stage st w))"
    using stage_propagates by blast
next
  show "copy_start Export v = None" by (simp add: copy_start_def)
next
  assume h: "argv_at v 1 = Some c \<and> argv_at v 2 = Some od \<and> exit_code (run_stage Export v) = 0"
  then obtain b u s where e: "stage_entry Export v = Entered b"
    and r: "b (initial v) = (Inr u, s)" and fin: "final_files (run_stage Export v) = st_files s"
    using exit_zero_entered by blast
  from e h have "b = convert_body v c od" by (auto split: if_splits)
  with r convert_files obtain f1 where m: "mkdir_parents (Path od) (files v) = (None, f1)"
    and x: "st_files s = snd (main_export v c (Path od) ''feature-extraction'' 18 ''cpu'' f1)"
    by blast
  from m have "\<forall>q. file_at f1 q = file_at (files v) q" by (simp add: mkdir_parents_files)
  with m x fin show "\<exists>f1. mkdir_parents (Path od) (files v) = (None, f1)
              \<and> (\<forall>q. file_at f1 q = file_at (files v) q)
              \<and> final_files (run_stage Export v) =
                  snd (main_export v c (Path od) ''feature-extraction'' 18 ''cpu'' f1)"
    by simp
qed

lemma run_export:
  "exit_code (run_stage Export export_world) = 0
   \<and> path_exists (files export_world) (joinpath (Path ''/dl'') ''config.json'')
   \<and> \<not> path_exists (final_files (run_stage Export export_world))
        (joinpath (Path ''/onnx'') ''config.json'')
   \<and> path_exists (final_files (run_stage Export export_world))
        (joinpath (Path ''/onnx'') ''model.onnx'')"
  by (simp add: run_stage_def run_guarded_def export_world_def quiet_world_def argv_at_def
      convert_body_def comp_defs path_defs fs_defs initial_def Let_def)

theorem export_has_no_copy_witness:
  "exit_code (run_stage Quantize sidecar_world) = 0
   \<and> final_files (run_stage Quantize sidecar_world) (PPath ''/'' [''out'', ''config.json''])
       = Some (File [4, 5])
   \<and> (\<exists>src dst f. copy_start Quantize sidecar_world = Some (src, dst, f)
         \<and> propagated src dst optimize_manifest f
              (final_files (run_stage Quantize sidecar_world)))
   \<and> argv_at export_world 1 = Some ''/dl'' \<and> argv_at export_world 2 = Some ''/onnx''
   \<and> exit_code (run_stage Export export_world) = 0
   \<and> path_exists (final_files (run_stage Export export_world))
        (joinpath (Path ''/onnx'') ''model.onnx'')
   \<and> copy_start Export export_world = None
   \<and> (\<exists>f1. mkdir_parents (Path ''/onnx'') (files export_world) = (None, f1)
         \<and> (\<forall>q. file_at f1 q = file_at (files export_world) q)
         \<and> final_files (run_stage Export export_world) =
             snd (main_export export_world ''/dl'' (Path ''/onnx'') ''feature-extraction'' 18
                    ''cpu'' f1))"
proof -
  have a: "argv_at export_world 1 = Some ''/dl''" "argv_at export_world 2 = Some ''/onnx''"
    by (simp_all add: export_world_def quiet_world_def argv_at_def)
  from run_export have z: "exit_code (run_stage Export export_world) = 0"
    and m: "path_exists (final_files (run_stage Export export_world))
        (joinpath (Path ''/onnx'') ''model.onnx'')" by simp_all
  from run_sidecar have y: "exit_code (run_stage Quantize sidecar_world) = 0"
    and k: "final_files (run_stage Quantize sidecar_world)
       (PPath ''/'' [''out'', ''config.json'']) = Some (File [4, 5])" by simp_all
  from export_has_no_copy [of Quantize sidecar_world export_world "''/dl''" "''/onnx''"]
    a z m y k show ?thesis by simp
qed

text \<open>
  C6 as stated fails: \<open>config.json\<close> is in the input directory of convert.py, the run
  succeeds, and the output directory has no \<open>config.json\<close>.
\<close>

theorem export_has_no_copy_counterexample:
  "exit_code (run_stage Export export_world) = 0
   \<and> path_exists (files export_world) (joinpath (Path ''/dl'') ''config.json'')
   \<and> \<not> path_exists (final_files (run_stage Export export_world))
        (joinpath (Path ''/onnx'') ''config.json'')"
  by (simp add: run_stage_def run_guarded_def export_world_def quiet_world_def argv_at_def
      convert_body_def comp_defs path_defs fs_defs initial_def Let_def)

subsection \<open>What a stage leaves alone\<close>

lemma files_kept_refl [simp]: "files_kept d f f"
  by (simp add: files_kept_def)




















subsection \<open>Delivery of the records\<close>

lemma observe_exit: "snd (observe b pend deliv t) = deliv @ pend @ records_of t"
  by (induction b pend deliv t rule: observe.induct)
     (auto split: buffering.splits prod.splits)

lemma observe_line: "fst (observe LineBuffered [] deliv t) = printed_before deliv t"
  by (induction deliv t rule: printed_before.induct) (auto split: prod.splits)

lemma observe_prefix:
  "list_all (\<lambda>seen. take (length seen) (deliv @ pend @ records_of t) = seen)
     (fst (observe b pend deliv t))"
  by (induction b pend deliv t rule: observe.induct)
     (auto split: buffering.splits prod.splits)

lemma observe_block:
  "Flush \<notin> set t \<Longrightarrow>
   list_all (\<lambda>seen. seen = deliv) (fst (observe BlockBuffered pend deliv t))"
  by (induction BlockBuffered pend deliv t rule: observe.induct)
     (auto split: prod.splits)

lemma printed_before_snoc [simp]:
  "printed_before acc (t @ [Print r]) = printed_before acc t"
  by (induction acc t rule: printed_before.induct) auto

text \<open>
  For each body: no print asks for a flush, and what is printed before each library
  call is one to four short status records.
\<close>

lemma download_unflushed:
  "download_body w m d (initial w) = (r, s) \<Longrightarrow>
   Flush \<notin> set (st_trace s) \<and> list_all status_only (printed_before [] (st_trace s))"
  unfolding download_body_def
  by (auto simp: comp_defs initial_def Let_def status_only_def
      split: sum.splits prod.splits option.splits)

lemma convert_unflushed:
  "convert_body w m d (initial w) = (r, s) \<Longrightarrow>
   Flush \<notin> set (st_trace s) \<and> list_all status_only (printed_before [] (st_trace s))"
  unfolding convert_body_def
  by (auto simp: comp_defs initial_def Let_def status_only_def
      split: sum.splits prod.splits option.splits)

lemma verify_unflushed:
  "verify_body w m d t (initial w) = (r, s) \<Longrightarrow>
   Flush \<notin> set (st_trace s) \<and> list_all status_only (printed_before [] (st_trace s))"
  unfolding verify_body_def
  by (auto simp: comp_defs initial_def Let_def status_only_def
      split: sum.splits prod.splits option.splits)

lemma optimize_prepare_unflushed:
  "optimize_prepare w m p a b (initial w) = (r, s) \<Longrightarrow>
   Flush \<notin> set (st_trace s) \<and> list_all status_only (printed_before [] (st_trace s))"
  unfolding optimize_prepare_def
  by (auto simp: comp_defs initial_def Let_def status_only_def
      split: sum.splits prod.splits option.splits)

lemma quantize_prepare_unflushed:
  "quantize_prepare w m d (initial w) = (r, s) \<Longrightarrow>
   Flush \<notin> set (st_trace s) \<and> list_all status_only (printed_before [] (st_trace s))"
  unfolding quantize_prepare_def
  by (auto simp: comp_defs initial_def Let_def status_only_def
      split: sum.splits prod.splits option.splits if_splits)

lemma optimize_unflushed:
  "optimize_body w m p a b (initial w) = (r, s) \<Longrightarrow>
   Flush \<notin> set (st_trace s) \<and> list_all status_only (printed_before [] (st_trace s))"
  unfolding optimize_body_def
  by (auto simp: bindE_def thenE_def py_print_def print_json_def Let_def
      dest!: optimize_prepare_unflushed copy_files_trace
      split: sum.splits prod.splits)

lemma quantize_unflushed:
  "quantize_body w m d (initial w) = (r, s) \<Longrightarrow>
   Flush \<notin> set (st_trace s) \<and> list_all status_only (printed_before [] (st_trace s))"
  unfolding quantize_body_def
  by (auto simp: bindE_def thenE_def py_print_def print_json_def Let_def
      dest!: quantize_prepare_unflushed copy_files_trace
      split: sum.splits prod.splits)

lemma entered_unflushed:
  "stage_entry st w = Entered b \<Longrightarrow> b (initial w) = (r, s) \<Longrightarrow>
   Flush \<notin> set (st_trace s) \<and> list_all status_only (printed_before [] (st_trace s))"
  by (cases st)
     (auto simp: download_unflushed convert_unflushed optimize_unflushed quantize_unflushed
        verify_unflushed split: if_splits option.splits)

lemma run_unflushed:
  "Flush \<notin> set (trace (run_stage st w))
   \<and> list_all status_only (printed_before [] (trace (run_stage st w)))"
proof (cases "stage_entry st w")
  case Uncaught
  then show ?thesis by (simp add: run_stage_def)
next
  case (ImportFailed msg)
  then show ?thesis by (simp add: run_stage_def)
next
  case (Entered b)
  obtain r s where run: "b (initial w) = (r, s)" by (cases "b (initial w)")
  from entered_unflushed [OF Entered run] Entered run show ?thesis
    by (cases r) (simp_all add: run_stage_def run_guarded_def)
qed

text \<open>
  C9, as the scripts have it. No print of any run of any stage asks for a flush, and
  before each library call a run has printed one to four short status records and
  nothing else. So on a block-buffered standard output the observer has received
  nothing when any library call of any run starts, although at least one record has
  been printed. On a line-buffered standard output the observer has, at every library
  call, every record printed before it. Whatever the buffering, what the observer has
  at a library call is a prefix of the records of the run, and at exit it has all of
  them, in the order of the print calls.
\<close>

theorem records_delivery:
  "Flush \<notin> set (trace (run_stage st w))
   \<and> list_all status_only (printed_before [] (trace (run_stage st w)))
   \<and> list_all (\<lambda>seen. seen = [])
        (fst (observe BlockBuffered [] [] (trace (run_stage st w))))
   \<and> fst (observe LineBuffered [] [] (trace (run_stage st w)))
        = printed_before [] (trace (run_stage st w))
   \<and> list_all (\<lambda>seen. take (length seen) (records (run_stage st w)) = seen)
        (fst (observe b [] [] (trace (run_stage st w))))
   \<and> snd (observe b [] [] (trace (run_stage st w))) = records (run_stage st w)"
proof -
  note u = run_unflushed [of st w]
  from u have "list_all (\<lambda>seen. seen = [])
        (fst (observe BlockBuffered [] [] (trace (run_stage st w))))"
    by (simp add: observe_block)
  with u observe_prefix [of "[]" "[]" "trace (run_stage st w)" b] show ?thesis
    by (simp add: observe_exit observe_line records_def)
qed

text \<open>
  C9 as stated fails on a block-buffered standard output, which is what a script gets
  when its standard output is a pipe: when download.py starts its first library call it
  has printed \<open>downloading_model\<close>, and the observer has received nothing; so it is at
  each of the four calls.
\<close>

theorem records_delivery_counterexample:
  "fst (observe BlockBuffered [] [] (trace (run_stage Download scenario_A)))
     = [[], [], [], []]
   \<and> printed_before [] (trace (run_stage Download scenario_A)) =
       [[[(''status'', JStr ''downloading_model'')]],
        [[(''status'', JStr ''downloading_model'')],
         [(''status'', JStr ''downloading_tokenizer'')]],
        [[(''status'', JStr ''downloading_model'')],
         [(''status'', JStr ''downloading_tokenizer'')],
         [(''status'', JStr ''saving_model'')]],
        [[(''status'', JStr ''downloading_model'')],
         [(''status'', JStr ''downloading_tokenizer'')],
         [(''status'', JStr ''saving_model'')],
         [(''status'', JStr ''saving_tokenizer'')]]]"
  by (simp add: run_stage_def run_guarded_def scenario_A_def quiet_world_def argv_at_def
      download_body_def comp_defs path_defs fs_defs initial_def Let_def)

end
